theory Spec2Isabelle
  imports Main
begin

section \<open>Relational state (src/db/setup.sql)\<close>

text \<open>
  Each table is a list of rows, in storage order. Only the columns that the modelled
  queries read or write are kept. \<open>SERIAL\<close> keys are drawn from one sequence per table,
  kept in the state. Nullable text columns are \<open>string option\<close>.
\<close>

record user =
  u_id :: int
  u_email :: string
  u_password :: string
  u_first_name :: string
  u_last_name :: string
  u_phone :: "string option"
  u_profile_picture :: "string option"
  u_role :: string

record job_seeker_profile =
  jsp_id :: int
  jsp_user_id :: int

record employer_profile =
  ep_id :: int
  ep_user_id :: int
  ep_company_name :: string

record job =
  j_id :: int
  j_employer_id :: int
  j_title :: string
  j_pay_amount :: "string option"
  j_pay_type :: "string option"
  j_location_address :: string
  j_urgency :: "string option"
  j_status :: string
  j_updated_at :: int

record job_application =
  ja_id :: int
  ja_job_id :: int
  ja_job_seeker_id :: int
  ja_cover_letter :: "string option"
  ja_status :: string
  ja_created_at :: int
  ja_updated_at :: int

record notification =
  n_id :: int
  n_user_id :: int
  n_title :: string
  n_message :: string
  n_is_read :: bool
  n_type :: string
  n_related_id :: int
  n_created_at :: int

record db =
  users :: "user list"
  job_seeker_profiles :: "job_seeker_profile list"
  employer_profiles :: "employer_profile list"
  jobs :: "job list"
  job_applications :: "job_application list"
  notifications :: "notification list"
  users_id_seq :: int
  job_seeker_profiles_id_seq :: int
  employer_profiles_id_seq :: int
  job_applications_id_seq :: int
  notifications_id_seq :: int

text \<open>\<open>result.rows[0]\<close>: the first row, \<open>undefined\<close> on an empty result.\<close>

fun rows0 :: "'a list \<Rightarrow> 'a option" where
  "rows0 [] = None"
| "rows0 (r # rs) = Some r"

section \<open>Errors and responses (src/middlewares/errorHandler.js, utils/responseHandler)\<close>

text \<open>
  \<open>ApiError c m\<close> is \<open>new ApiError(c, m)\<close>; \<open>StorageError\<close> is a failure of the
  storage met by the database driver (without one of the codes the handler knows),
  \<open>PgError c\<close> an error by which PostgreSQL refuses a statement, with its code
  \<open>c\<close>, and \<open>TypeError\<close> the JavaScript runtime error of reading a property of
  \<open>undefined\<close>.
\<close>

datatype error = ApiError int string | StorageError | PgError string | TypeError

text \<open>
  The boundary handler turns the codes 23505 and 23503 into a 400 and answers every
  other error with \<open>error.statusCode || 500\<close>.
\<close>

fun errorHandler_status :: "error \<Rightarrow> int" where
  "errorHandler_status (ApiError c m) = (if c = 0 then 500 else c)"
| "errorHandler_status StorageError = 500"
| "errorHandler_status (PgError c) = (if c = ''23505'' \<or> c = ''23503'' then 400 else 500)"
| "errorHandler_status TypeError = 500"

text \<open>
  The id columns are \<open>SERIAL\<close>, that is \<open>INTEGER\<close>, a signed 32-bit number. The
  routes pass the id of the path (\<open>req.params.id\<close>) to the query as it came, without
  a validator; an integer outside this range makes PostgreSQL refuse the statement with
  the code 22003 (numeric value out of range), and the query throws. The id of a request
  is modelled as the integer its text denotes (a text that denotes no integer is
  outside the model).
\<close>

definition int4_range :: "int \<Rightarrow> bool" where
  "int4_range i \<longleftrightarrow> - 2147483648 \<le> i \<and> i \<le> 2147483647"

datatype json = JNull | JInt int | JStr string | JBool bool | JObj "(string \<times> json) list"

record response =
  statusCode :: int
  message :: string
  data :: json

definition successResponse :: "int \<Rightarrow> string \<Rightarrow> json \<Rightarrow> response" where
  "successResponse code msg d = \<lparr>statusCode = code, message = msg, data = d\<rparr>"

fun jstr_opt :: "string option \<Rightarrow> json" where
  "jstr_opt None = JNull"
| "jstr_opt (Some s) = JStr s"

text \<open>The object of a \<open>job_applications\<close> row, as \<open>RETURNING *\<close> and \<open>SELECT *\<close> give it.\<close>

definition application_row :: "job_application \<Rightarrow> (string \<times> json) list" where
  "application_row a =
     [(''id'', JInt (ja_id a)),
      (''job_id'', JInt (ja_job_id a)),
      (''job_seeker_id'', JInt (ja_job_seeker_id a)),
      (''cover_letter'', jstr_opt (ja_cover_letter a)),
      (''status'', JStr (ja_status a)),
      (''created_at'', JInt (ja_created_at a)),
      (''updated_at'', JInt (ja_updated_at a))]"

text \<open>The authenticated principal \<open>req.user\<close> (\<open>id\<close>, \<open>role\<close>), set by \<open>protect\<close>.\<close>

record req_user =
  ru_id :: int
  ru_role :: string

text \<open>
  The environment of one request: the clock read by \<open>NOW()\<close> and the storage faults
  that the notification path can meet.
\<close>

record env =
  now :: int
  details_query_fails :: bool
  notification_insert_fails :: bool

section \<open>JobApplication model (models/application.model.js)\<close>

text \<open>\<open>INSERT INTO job_applications (...) VALUES ($1, $2, $3, 'pending') RETURNING *\<close>\<close>

definition JobApplication_create ::
  "db \<Rightarrow> int \<Rightarrow> string option \<Rightarrow> int \<Rightarrow> int \<Rightarrow> job_application \<times> db" where
  "JobApplication_create d t coverLetter jobSeekerId jobId =
     (let row = \<lparr>ja_id = job_applications_id_seq d, ja_job_id = jobId,
                 ja_job_seeker_id = jobSeekerId, ja_cover_letter = coverLetter,
                 ja_status = ''pending'', ja_created_at = t, ja_updated_at = t\<rparr>
      in (row, d\<lparr>job_applications := job_applications d @ [row],
                 job_applications_id_seq := job_applications_id_seq d + 1\<rparr>))"

text \<open>
  \<open>SELECT * FROM job_applications WHERE id = $1\<close>, then \<open>rows[0] || null\<close>. \<open>Inl\<close> is
  the error the query throws (and \<open>findById\<close> rethrows) for an id that is no \<open>INTEGER\<close>.
\<close>

definition JobApplication_findById :: "db \<Rightarrow> int \<Rightarrow> error + job_application option" where
  "JobApplication_findById d i =
     (if int4_range i then Inr (rows0 [a \<leftarrow> job_applications d. ja_id a = i])
      else Inl (PgError ''22003''))"

text \<open>
  \<open>UPDATE job_applications SET status = $1, updated_at = NOW() WHERE id = $2 RETURNING *\<close>,
  then \<open>rows[0]\<close>.
\<close>

definition set_status :: "string \<Rightarrow> int \<Rightarrow> job_application \<Rightarrow> job_application" where
  "set_status s t a = a\<lparr>ja_status := s, ja_updated_at := t\<rparr>"

definition JobApplication_updateStatus ::
  "db \<Rightarrow> int \<Rightarrow> int \<Rightarrow> string \<Rightarrow> job_application option \<times> db" where
  "JobApplication_updateStatus d t i s =
     (rows0 (map (set_status s t) [a \<leftarrow> job_applications d. ja_id a = i]),
      d\<lparr>job_applications :=
           map (\<lambda>a. if ja_id a = i then set_status s t a else a) (job_applications d)\<rparr>)"

text \<open>\<open>SELECT * FROM job_applications WHERE job_seeker_id = $1 AND job_id = $2\<close>, non-empty.\<close>

definition JobApplication_hasApplied :: "db \<Rightarrow> int \<Rightarrow> int \<Rightarrow> bool" where
  "JobApplication_hasApplied d jobSeekerId jobId =
     ([a \<leftarrow> job_applications d. ja_job_seeker_id a = jobSeekerId \<and> ja_job_id a = jobId] \<noteq> [])"

text \<open>
  \<open>findById(id, true)\<close>: the application joined (inner joins) with its job, the
  job's employer profile and the employer's user, the applicant's profile and the
  applicant's user; \<open>rows[0] || null\<close>. The condition \<open>WHERE ja.id = $1\<close> is
  applied to the application before the joins, which selects the same rows. \<open>Inl\<close> is
  the error the query throws for an id that is no \<open>INTEGER\<close>.
\<close>

type_synonym application_join =
  "job_application \<times> job \<times> employer_profile \<times> user \<times> job_seeker_profile \<times> user"

definition JobApplication_findById_details ::
  "db \<Rightarrow> int \<Rightarrow> error + application_join option" where
  "JobApplication_findById_details d i =
     (if int4_range i then
        Inr (rows0 [(ja, j, ep, u_employer, jsp, u_seeker).
            ja \<leftarrow> job_applications d, ja_id ja = i,
            j \<leftarrow> jobs d, ja_job_id ja = j_id j,
            ep \<leftarrow> employer_profiles d, j_employer_id j = ep_id ep,
            u_employer \<leftarrow> users d, ep_user_id ep = u_id u_employer,
            jsp \<leftarrow> job_seeker_profiles d, ja_job_seeker_id ja = jsp_id jsp,
            u_seeker \<leftarrow> users d, jsp_user_id jsp = u_id u_seeker])
      else Inl (PgError ''22003''))"

fun details_row :: "application_join \<Rightarrow> (string \<times> json) list" where
  "details_row (ja, j, ep, u_employer, jsp, u_seeker) =
     application_row ja @
     [(''job_title'', JStr (j_title j)),
      (''pay_amount'', jstr_opt (j_pay_amount j)),
      (''pay_type'', jstr_opt (j_pay_type j)),
      (''urgency'', jstr_opt (j_urgency j)),
      (''job_location'', JStr (j_location_address j)),
      (''company_name'', JStr (ep_company_name ep)),
      (''employer_first_name'', JStr (u_first_name u_employer)),
      (''employer_last_name'', JStr (u_last_name u_employer)),
      (''seeker_first_name'', JStr (u_first_name u_seeker)),
      (''seeker_last_name'', JStr (u_last_name u_seeker)),
      (''seeker_profile_picture'', jstr_opt (u_profile_picture u_seeker))]"

text \<open>Reading a property of a response object: \<open>None\<close> when the key is absent.\<close>

fun json_field :: "json \<Rightarrow> string \<Rightarrow> json option" where
  "json_field (JObj kvs) k = map_of kvs k"
| "json_field _ k = None"

section \<open>Notification model (src/models/notification.model.js)\<close>

text \<open>
  \<open>INSERT INTO notifications (user_id, title, message, type, related_id) ... RETURNING *\<close>;
  \<open>is_read\<close> takes its default \<open>FALSE\<close>. A storage fault makes the insert throw.
\<close>

definition Notification_create ::
  "db \<Rightarrow> env \<Rightarrow> int \<Rightarrow> string \<Rightarrow> string \<Rightarrow> string \<Rightarrow> int \<Rightarrow> error + notification \<times> db" where
  "Notification_create d e userId title msg type relatedId =
     (if notification_insert_fails e then Inl StorageError
      else let row = \<lparr>n_id = notifications_id_seq d, n_user_id = userId, n_title = title,
                       n_message = msg, n_is_read = False, n_type = type,
                       n_related_id = relatedId, n_created_at = now e\<rparr>
           in Inr (row, d\<lparr>notifications := notifications d @ [row],
                           notifications_id_seq := notifications_id_seq d + 1\<rparr>))"

text \<open>
  \<open>UPDATE notifications SET is_read = true WHERE user_id = $1 AND is_read = false
  RETURNING id\<close>, then \<open>rows.map(row => row.id)\<close>.
\<close>

definition Notification_markAllAsRead :: "db \<Rightarrow> int \<Rightarrow> int list \<times> db" where
  "Notification_markAllAsRead d userId =
     (map n_id [n \<leftarrow> notifications d. n_user_id n = userId \<and> n_is_read n = False],
      d\<lparr>notifications :=
           map (\<lambda>n. if n_user_id n = userId \<and> n_is_read n = False
                     then n\<lparr>n_is_read := True\<rparr> else n) (notifications d)\<rparr>)"

text \<open>\<open>SELECT COUNT(*) FROM notifications WHERE user_id = $1 AND is_read = false\<close>\<close>

definition Notification_getUnreadCount :: "db \<Rightarrow> int \<Rightarrow> int" where
  "Notification_getUnreadCount d userId =
     int (length [n \<leftarrow> notifications d. n_user_id n = userId \<and> n_is_read n = False])"

text \<open>
  The row of the notification query of the status update: \<open>ja.*\<close>, the job's title and
  the user ids of the applicant and of the employer.
\<close>

record application_details =
  ad_application :: job_application
  ad_job_title :: string
  ad_job_seeker_user_id :: int
  ad_employer_user_id :: int

definition createApplicationStatusNotification ::
  "db \<Rightarrow> env \<Rightarrow> application_details \<Rightarrow> string \<Rightarrow> int \<Rightarrow> error + notification \<times> db" where
  "createApplicationStatusNotification d e application newStatus targetUserId =
     (let (title, msg) =
        (if newStatus = ''accepted'' then
           (''Application Accepted'',
            ''Your application for '' @ ad_job_title application @ '' has been accepted!'')
         else if newStatus = ''rejected'' then
           (''Application Rejected'',
            ''Your application for '' @ ad_job_title application @ '' was not accepted.'')
         else if newStatus = ''withdrawn'' then
           (''Application Withdrawn'',
            ''An application for '' @ ad_job_title application @ '' has been withdrawn.'')
         else
           (''Application Status Updated'',
            ''Your application status has been updated to '' @ newStatus @ ''.''))
      in Notification_create d e targetUserId title msg ''application_status''
           (ja_id (ad_application application)))"

text \<open>
  A template literal prints a missing property as \<open>undefined\<close>.
\<close>

fun template :: "string option \<Rightarrow> string" where
  "template None = ''undefined''"
| "template (Some s) = s"

definition createNewApplicationNotification ::
  "db \<Rightarrow> env \<Rightarrow> job_application \<Rightarrow> string \<Rightarrow> string option \<Rightarrow> string option \<Rightarrow> int
     \<Rightarrow> error + notification \<times> db" where
  "createNewApplicationNotification d e application job_title first_name last_name employerId =
     Notification_create d e employerId ''New Job Application''
       (template first_name @ '' '' @ template last_name @ '' has applied for your job: ''
          @ job_title)
       ''new_application'' (ja_id application)"

section \<open>Application controller (controllers/application.controller.js)\<close>

text \<open>
  A controller takes the database, the environment and the request, and returns what it
  hands to the framework (\<open>Inl\<close> the error passed to \<open>next\<close>, \<open>Inr\<close> the success
  response) together with the database it leaves behind.
\<close>

text \<open>
  \<open>SELECT jsp.id FROM job_seeker_profiles jsp WHERE jsp.user_id = $1 AND jsp.id = $2\<close>
\<close>

definition own_profile_rows :: "db \<Rightarrow> int \<Rightarrow> int \<Rightarrow> int list" where
  "own_profile_rows d userId jobSeekerId =
     [jsp_id jsp. jsp \<leftarrow> job_seeker_profiles d, jsp_user_id jsp = userId \<and> jsp_id jsp = jobSeekerId]"

text \<open>
  \<open>SELECT j.id FROM jobs j JOIN employer_profiles ep ON j.employer_id = ep.id
  WHERE ep.user_id = $1 AND j.id = $2\<close>
\<close>

definition own_job_rows :: "db \<Rightarrow> int \<Rightarrow> int \<Rightarrow> int list" where
  "own_job_rows d userId jobId =
     [j_id j. j \<leftarrow> jobs d, ep \<leftarrow> employer_profiles d, j_employer_id j = ep_id ep,
              ep_user_id ep = userId \<and> j_id j = jobId]"

text \<open>
  \<open>SELECT u.id, j.title FROM jobs j JOIN employer_profiles ep ON j.employer_id = ep.id
  JOIN users u ON ep.user_id = u.id WHERE j.id = $1\<close>
\<close>

definition employer_of_job_rows :: "db \<Rightarrow> int \<Rightarrow> (int \<times> string) list" where
  "employer_of_job_rows d jobId =
     [(u_id u, j_title j). j \<leftarrow> jobs d, ep \<leftarrow> employer_profiles d, j_employer_id j = ep_id ep,
                           u \<leftarrow> users d, ep_user_id ep = u_id u, j_id j = jobId]"

text \<open>
  \<open>applyForJob\<close>. The request body carries \<open>jobId\<close> and the optional \<open>coverLetter\<close>.
  The notification is built from \<open>jobSeekerResult.rows[0]\<close>, a row that holds the
  profile id only, so both name properties are missing. The call that creates the
  notification stands directly in the handler's outer \<open>try\<close>: an error it throws
  reaches \<open>next(error)\<close>, after the application row was inserted. (The query for
  \<open>jobSeekerInfoResult\<close> writes nothing and its result is never read.)
\<close>

definition applyForJob ::
  "db \<Rightarrow> env \<Rightarrow> req_user \<Rightarrow> int \<Rightarrow> string option \<Rightarrow> (error + response) \<times> db" where
  "applyForJob d e usr jobId coverLetter =
     (case [jsp \<leftarrow> job_seeker_profiles d. jsp_user_id jsp = ru_id usr] of
        [] \<Rightarrow> (Inl (ApiError 404 ''Job seeker profile not found''), d)
      | jobSeeker # _ \<Rightarrow>
        (let jobSeekerId = jsp_id jobSeeker in
         case [j \<leftarrow> jobs d. j_id j = jobId \<and> j_status j = ''active''] of
           [] \<Rightarrow> (Inl (ApiError 404 ''Job not found or not active''), d)
         | job # _ \<Rightarrow>
           if JobApplication_hasApplied d jobSeekerId jobId
           then (Inl (ApiError 400 ''You have already applied for this job''), d)
           else
             (let (application, d1) = JobApplication_create d (now e) coverLetter jobSeekerId jobId;
                  resp = successResponse 201 ''Application submitted successfully''
                           (JObj (application_row application @
                              [(''job'', JObj [(''title'', JStr (j_title job)),
                                               (''urgency'', jstr_opt (j_urgency job)),
                                               (''payAmount'', jstr_opt (j_pay_amount job)),
                                               (''payType'', jstr_opt (j_pay_type job))])]))
              in case employer_of_job_rows d1 jobId of
                   [] \<Rightarrow> (Inr resp, d1)
                 | (employerId, title) # _ \<Rightarrow>
                   (case createNewApplicationNotification d1 e application title None None employerId of
                      Inl err \<Rightarrow> (Inl err, d1)
                    | Inr (n, d2) \<Rightarrow> (Inr resp, d2)))))"

text \<open>
  \<open>getApplicationById\<close>. An error thrown by the lookup is caught by the handler's
  \<open>try\<close> and passed to \<open>next\<close>.
\<close>

definition getApplicationById :: "db \<Rightarrow> req_user \<Rightarrow> int \<Rightarrow> error + response" where
  "getApplicationById d usr applicationId =
     (case JobApplication_findById_details d applicationId of
        Inl error \<Rightarrow> Inl error
      | Inr None \<Rightarrow> Inl (ApiError 404 ''Application not found'')
      | Inr (Some (ja, rest)) \<Rightarrow>
        (let authorized =
           (if ru_role usr = ''job_seeker''
            then own_profile_rows d (ru_id usr) (ja_job_seeker_id ja) \<noteq> []
            else if ru_role usr = ''employer''
            then own_job_rows d (ru_id usr) (ja_job_id ja) \<noteq> []
            else False)
         in if \<not> authorized \<and> ru_role usr \<noteq> ''admin''
            then Inl (ApiError 403 ''You are not authorized to view this application'')
            else Inr (successResponse 200 ''Application retrieved successfully''
                        (JObj (details_row (ja, rest))))))"

text \<open>
  The notification query of the status update: \<open>job_applications\<close> joined with
  \<open>jobs\<close>, \<open>job_seeker_profiles\<close> and \<open>employer_profiles\<close>, for one application id.
\<close>

definition applicationDetailsResult :: "db \<Rightarrow> int \<Rightarrow> application_details list" where
  "applicationDetailsResult d i =
     [\<lparr>ad_application = ja, ad_job_title = j_title j,
       ad_job_seeker_user_id = jsp_user_id jsp, ad_employer_user_id = ep_user_id ep\<rparr>.
      ja \<leftarrow> job_applications d, ja_id ja = i,
      j \<leftarrow> jobs d, ja_job_id ja = j_id j,
      jsp \<leftarrow> job_seeker_profiles d, ja_job_seeker_id ja = jsp_id jsp,
      ep \<leftarrow> employer_profiles d, j_employer_id j = ep_id ep]"

text \<open>
  The body of the inner \<open>try\<close> of \<open>updateApplicationStatus\<close>: \<open>Inl\<close> is the error it
  throws. \<open>targetUserId\<close> stays \<open>undefined\<close> (\<open>None\<close>) for an admin, and
  \<open>if (targetUserId)\<close> also skips the id 0.
\<close>

definition status_notification :: "db \<Rightarrow> env \<Rightarrow> req_user \<Rightarrow> int \<Rightarrow> string \<Rightarrow> error + db" where
  "status_notification d e usr applicationId status =
     (if details_query_fails e then Inl StorageError
      else case applicationDetailsResult d applicationId of
        [] \<Rightarrow> Inr d
      | applicationDetails # _ \<Rightarrow>
        (let targetUserId =
           (if ru_role usr = ''employer'' \<and> status \<in> set [''accepted'', ''rejected'']
            then Some (ad_job_seeker_user_id applicationDetails)
            else if ru_role usr = ''job_seeker'' \<and> status = ''withdrawn''
            then Some (ad_employer_user_id applicationDetails)
            else None)
         in case targetUserId of
              None \<Rightarrow> Inr d
            | Some t \<Rightarrow>
              if t = 0 then Inr d
              else (case createApplicationStatusNotification d e applicationDetails status t of
                      Inl err \<Rightarrow> Inl err
                    | Inr (n, d') \<Rightarrow> Inr d')))"

definition validStatusValues :: "string list" where
  "validStatusValues = [''pending'', ''accepted'', ''rejected'', ''withdrawn'']"

fun json_of_application :: "job_application option \<Rightarrow> json" where
  "json_of_application None = JNull"
| "json_of_application (Some a) = JObj (application_row a)"

text \<open>
  \<open>updateApplicationStatus\<close> (\<open>PATCH /api/applications/:id/status\<close>). An error
  thrown by the lookup is caught by the outer \<open>try\<close> and passed to \<open>next\<close>; the
  error of the inner \<open>try\<close> is caught, logged and dropped. The update and the
  notification query run with an id that the lookup has accepted.
\<close>

definition updateApplicationStatus ::
  "db \<Rightarrow> env \<Rightarrow> req_user \<Rightarrow> int \<Rightarrow> string \<Rightarrow> (error + response) \<times> db" where
  "updateApplicationStatus d e usr applicationId status =
     (if status \<notin> set validStatusValues
      then (Inl (ApiError 400
              ''Status must be one of: pending, accepted, rejected, withdrawn''), d)
      else case JobApplication_findById d applicationId of
        Inl error \<Rightarrow> (Inl error, d)
      | Inr None \<Rightarrow> (Inl (ApiError 404 ''Application not found''), d)
      | Inr (Some application) \<Rightarrow>
        if ru_role usr = ''employer'' \<and> status \<notin> set [''accepted'', ''rejected'']
        then (Inl (ApiError 400 ''Employers can only accept or reject applications''), d)
        else if ru_role usr \<noteq> ''employer'' \<and> ru_role usr = ''job_seeker'' \<and> status \<noteq> ''withdrawn''
        then (Inl (ApiError 400 ''Job seekers can only withdraw their applications''), d)
        else
          (let authorized =
             (if ru_role usr = ''employer''
              then own_job_rows d (ru_id usr) (ja_job_id application) \<noteq> []
              else if ru_role usr = ''job_seeker''
              then own_profile_rows d (ru_id usr) (ja_job_seeker_id application) \<noteq> []
              else False)
           in if \<not> authorized \<and> ru_role usr \<noteq> ''admin''
              then (Inl (ApiError 403 ''You are not authorized to update this application''), d)
              else
                (let (updatedApplication, d1) =
                       JobApplication_updateStatus d (now e) applicationId status;
                     d2 = (case status_notification d1 e usr applicationId status of
                             Inl notificationError \<Rightarrow> d1
                           | Inr d' \<Rightarrow> d')
                 in (Inr (successResponse 200 ''Application status updated successfully''
                            (json_of_application updatedApplication)), d2))))"

section \<open>Admin application controller (controllers/admin/application.controller.js)\<close>

text \<open>
  \<open>updateApplicationStatus\<close> of the admin routes (\<open>PATCH /api/admin/applications/:id/status\<close>,
  behind \<open>ensureAdmin\<close>). After the update of the row, an acceptance rejects the other
  pending applications of the job and marks the job filled. The response carries
  \<open>id\<close>, \<open>job_id\<close> and \<open>status\<close> of the updated row. The first query throws for an
  id that is no \<open>INTEGER\<close>, and the handler passes the error to \<open>next\<close>.
\<close>

definition reject_other_pending :: "int \<Rightarrow> int \<Rightarrow> int \<Rightarrow> job_application \<Rightarrow> job_application" where
  "reject_other_pending t jobId applicationId a =
     (if ja_job_id a = jobId \<and> ja_id a \<noteq> applicationId \<and> ja_status a = ''pending''
      then a\<lparr>ja_status := ''rejected'', ja_updated_at := t\<rparr> else a)"

definition fill_job :: "int \<Rightarrow> int \<Rightarrow> job \<Rightarrow> job" where
  "fill_job t jobId j = (if j_id j = jobId then j\<lparr>j_status := ''filled'', j_updated_at := t\<rparr> else j)"

definition admin_updateApplicationStatus ::
  "db \<Rightarrow> env \<Rightarrow> int \<Rightarrow> string \<Rightarrow> (error + response) \<times> db" where
  "admin_updateApplicationStatus d e applicationId status =
     (if status \<notin> set [''pending'', ''accepted'', ''rejected'', ''withdrawn'']
      then (Inl (ApiError 400
              ''Status must be one of: pending, accepted, rejected, withdrawn''), d)
      else if \<not> int4_range applicationId then (Inl (PgError ''22003''), d)
      else case [a \<leftarrow> job_applications d. ja_id a = applicationId] of
        [] \<Rightarrow> (Inl (ApiError 404 ''Application not found''), d)
      | applicationCheck # _ \<Rightarrow>
        (let (updated, d1) = JobApplication_updateStatus d (now e) applicationId status;
             d3 = (if status = ''accepted''
                   then (let jobId = ja_job_id applicationCheck;
                             d2 = d1\<lparr>job_applications :=
                                       map (reject_other_pending (now e) jobId applicationId)
                                           (job_applications d1)\<rparr>
                         in d2\<lparr>jobs := map (fill_job (now e) jobId) (jobs d2)\<rparr>)
                   else d1)
         in (Inr (successResponse 200
                    (''Application status updated to '' @ status @ '' successfully'')
                    (case updated of None \<Rightarrow> JNull
                     | Some a \<Rightarrow> JObj [(''id'', JInt (ja_id a)), (''job_id'', JInt (ja_job_id a)),
                                        (''status'', JStr (ja_status a))])), d3)))"

section \<open>Registration (controllers/auth.controller.js)\<close>

record register_body =
  rb_email :: string
  rb_password :: string
  rb_firstName :: string
  rb_lastName :: string
  rb_phone :: "string option"
  rb_role :: string
  rb_companyName :: "string option"

text \<open>
  What the request meets outside the database: the bcrypt hash of its password, the
  token signed for the new user, and the statements of the transaction that fail.
\<close>

record register_env =
  hashedPassword :: string
  token :: string
  user_insert_fails :: bool
  profile_insert_fails :: bool
  commit_fails :: bool

text \<open>
  \<open>ROLLBACK\<close> restores the tables of the snapshot taken at \<open>BEGIN\<close>; the values
  drawn from sequences stay drawn.
\<close>

definition rollback :: "db \<Rightarrow> db \<Rightarrow> db" where
  "rollback snapshot working =
     snapshot\<lparr>users_id_seq := users_id_seq working,
              job_seeker_profiles_id_seq := job_seeker_profiles_id_seq working,
              employer_profiles_id_seq := employer_profiles_id_seq working\<rparr>"

text \<open>
  The inner \<open>try\<close> of \<open>register\<close>, run on a connected client: \<open>BEGIN\<close>, the insert
  of the user, the insert of the profile of its role, \<open>COMMIT\<close>; any error is answered
  by \<open>ROLLBACK\<close> and passed to \<open>next\<close>. \<open>companyName\<close> defaults to the empty string.
\<close>

definition register_transaction ::
  "db \<Rightarrow> register_env \<Rightarrow> register_body \<Rightarrow> (error + response) \<times> db" where
  "register_transaction d e b =
     (let d0 = d\<lparr>users_id_seq := users_id_seq d + 1\<rparr> in
      if user_insert_fails e then (Inl StorageError, rollback d d0)
      else
        (let usr = \<lparr>u_id = users_id_seq d, u_email = rb_email b, u_password = hashedPassword e,
                     u_first_name = rb_firstName b, u_last_name = rb_lastName b,
                     u_phone = rb_phone b, u_profile_picture = None, u_role = rb_role b\<rparr>;
             d1 = d0\<lparr>users := users d0 @ [usr]\<rparr>;
             d2 = (if rb_role b = ''job_seeker''
                   then d1\<lparr>job_seeker_profiles := job_seeker_profiles d1 @
                               [\<lparr>jsp_id = job_seeker_profiles_id_seq d1, jsp_user_id = u_id usr\<rparr>],
                           job_seeker_profiles_id_seq := job_seeker_profiles_id_seq d1 + 1\<rparr>
                   else if rb_role b = ''employer''
                   then d1\<lparr>employer_profiles := employer_profiles d1 @
                               [\<lparr>ep_id = employer_profiles_id_seq d1, ep_user_id = u_id usr,
                                 ep_company_name = (case rb_companyName b of None \<Rightarrow> [] | Some c \<Rightarrow> c)\<rparr>],
                           employer_profiles_id_seq := employer_profiles_id_seq d1 + 1\<rparr>
                   else d1)
         in if (rb_role b = ''job_seeker'' \<or> rb_role b = ''employer'') \<and> profile_insert_fails e
            then (Inl StorageError, rollback d d2)
            else if commit_fails e then (Inl StorageError, rollback d d2)
            else (Inr (successResponse 201 ''User registered successfully''
                         (JObj [(''user'', JObj [(''id'', JInt (u_id usr)),
                                                 (''email'', JStr (u_email usr)),
                                                 (''first_name'', JStr (u_first_name usr)),
                                                 (''last_name'', JStr (u_last_name usr)),
                                                 (''role'', JStr (u_role usr))]),
                                (''token'', JStr (token e))])), d2)))"

text \<open>
  The controller imports the function \<open>query\<close> alone
  (\<open>const { query } = require('../db/connection')\<close>), and db/connection.js exports
  the pool beside it (\<open>module.exports = { query, connect, pool }\<close>), never as a
  property of the function. So \<open>query.pool\<close> is \<open>undefined\<close>, here \<open>None\<close>, and
  \<open>query.pool.connect()\<close> throws a TypeError.
\<close>

datatype pool = Pool

definition query_pool :: "pool option" where
  "query_pool = None"

text \<open>
  \<open>register\<close>: the role check, the lookup of the email, then the connection taken
  from \<open>query.pool\<close> and the transaction. The TypeError is caught by the outer
  \<open>try\<close> and passed to \<open>next\<close>.
\<close>

definition register :: "db \<Rightarrow> register_env \<Rightarrow> register_body \<Rightarrow> (error + response) \<times> db" where
  "register d e b =
     (if rb_role b \<notin> set [''job_seeker'', ''employer'']
      then (Inl (ApiError 400 ''Invalid role. Must be job_seeker or employer''), d)
      else if [u \<leftarrow> users d. u_email u = rb_email b] \<noteq> []
      then (Inl (ApiError 400 ''User with this email already exists''), d)
      else case query_pool of
             None \<Rightarrow> (Inl TypeError, d)
           | Some p \<Rightarrow> register_transaction d e b)"

section \<open>A sample database\<close>

text \<open>
  One employer (user 1, profile 10) with job 100, two job seekers (users 2 and 3,
  profiles 20 and 30) who both applied to it, an admin (user 4), a second employer
  (user 5, profile 50) without jobs and a third job seeker (user 6, profile 60) without
  applications. User 2 has three notifications, two of them unread.
\<close>

definition sample_users :: "user list" where
  "sample_users =
     [\<lparr>u_id = 1, u_email = ''e@x.io'', u_password = ''h1'', u_first_name = ''Eve'',
       u_last_name = ''Emp'', u_phone = None, u_profile_picture = None, u_role = ''employer''\<rparr>,
      \<lparr>u_id = 2, u_email = ''s@x.io'', u_password = ''h2'', u_first_name = ''Sam'',
       u_last_name = ''See'', u_phone = None, u_profile_picture = None, u_role = ''job_seeker''\<rparr>,
      \<lparr>u_id = 3, u_email = ''t@x.io'', u_password = ''h3'', u_first_name = ''Tom'',
       u_last_name = ''Too'', u_phone = None, u_profile_picture = None, u_role = ''job_seeker''\<rparr>,
      \<lparr>u_id = 4, u_email = ''admin@example.com'', u_password = ''h4'', u_first_name = ''Admin'',
       u_last_name = ''User'', u_phone = None, u_profile_picture = None, u_role = ''admin''\<rparr>,
      \<lparr>u_id = 5, u_email = ''f@x.io'', u_password = ''h5'', u_first_name = ''Fay'',
       u_last_name = ''Far'', u_phone = None, u_profile_picture = None, u_role = ''employer''\<rparr>,
      \<lparr>u_id = 6, u_email = ''n@x.io'', u_password = ''h6'', u_first_name = ''Nia'',
       u_last_name = ''New'', u_phone = None, u_profile_picture = None, u_role = ''job_seeker''\<rparr>]"

definition sample_job :: job where
  "sample_job = \<lparr>j_id = 100, j_employer_id = 10, j_title = ''Mover'', j_pay_amount = None,
                 j_pay_type = None, j_location_address = ''Dhaka'', j_urgency = None,
                 j_status = ''active'', j_updated_at = 0\<rparr>"

definition sample_app1 :: job_application where
  "sample_app1 = \<lparr>ja_id = 1, ja_job_id = 100, ja_job_seeker_id = 20, ja_cover_letter = None,
                  ja_status = ''pending'', ja_created_at = 1, ja_updated_at = 1\<rparr>"

definition sample_app2 :: job_application where
  "sample_app2 = \<lparr>ja_id = 2, ja_job_id = 100, ja_job_seeker_id = 30, ja_cover_letter = Some ''hi'',
                  ja_status = ''pending'', ja_created_at = 2, ja_updated_at = 2\<rparr>"

definition sample_notifications :: "notification list" where
  "sample_notifications =
     [\<lparr>n_id = 1, n_user_id = 2, n_title = ''a'', n_message = ''m'', n_is_read = False,
       n_type = ''application_status'', n_related_id = 1, n_created_at = 3\<rparr>,
      \<lparr>n_id = 2, n_user_id = 2, n_title = ''b'', n_message = ''m'', n_is_read = True,
       n_type = ''application_status'', n_related_id = 1, n_created_at = 4\<rparr>,
      \<lparr>n_id = 3, n_user_id = 1, n_title = ''c'', n_message = ''m'', n_is_read = False,
       n_type = ''new_application'', n_related_id = 1, n_created_at = 5\<rparr>,
      \<lparr>n_id = 4, n_user_id = 2, n_title = ''d'', n_message = ''m'', n_is_read = False,
       n_type = ''application_status'', n_related_id = 2, n_created_at = 6\<rparr>]"

definition sample_db :: db where
  "sample_db =
     \<lparr>users = sample_users,
      job_seeker_profiles = [\<lparr>jsp_id = 20, jsp_user_id = 2\<rparr>, \<lparr>jsp_id = 30, jsp_user_id = 3\<rparr>,
                             \<lparr>jsp_id = 60, jsp_user_id = 6\<rparr>],
      employer_profiles = [\<lparr>ep_id = 10, ep_user_id = 1, ep_company_name = ''Acme''\<rparr>,
                           \<lparr>ep_id = 50, ep_user_id = 5, ep_company_name = ''Bolt''\<rparr>],
      jobs = [sample_job],
      job_applications = [sample_app1, sample_app2],
      notifications = sample_notifications,
      users_id_seq = 7, job_seeker_profiles_id_seq = 61, employer_profiles_id_seq = 51,
      job_applications_id_seq = 3, notifications_id_seq = 5\<rparr>"

definition sample_env :: env where
  "sample_env = \<lparr>now = 77, details_query_fails = False, notification_insert_fails = False\<rparr>"

definition sample_employer :: req_user where
  "sample_employer = \<lparr>ru_id = 1, ru_role = ''employer''\<rparr>"

definition sample_seeker2 :: req_user where
  "sample_seeker2 = \<lparr>ru_id = 2, ru_role = ''job_seeker''\<rparr>"

definition sample_seeker3 :: req_user where
  "sample_seeker3 = \<lparr>ru_id = 3, ru_role = ''job_seeker''\<rparr>"

definition sample_seeker6 :: req_user where
  "sample_seeker6 = \<lparr>ru_id = 6, ru_role = ''job_seeker''\<rparr>"

text \<open>Application 1 once accepted at time 77, and the row a first application of user 6 creates.\<close>

definition sample_accepted1 :: job_application where
  "sample_accepted1 = sample_app1\<lparr>ja_status := ''accepted'', ja_updated_at := 77\<rparr>"

definition sample_app3 :: job_application where
  "sample_app3 = \<lparr>ja_id = 3, ja_job_id = 100, ja_job_seeker_id = 60, ja_cover_letter = None,
                  ja_status = ''pending'', ja_created_at = 77, ja_updated_at = 77\<rparr>"

text \<open>
  The state left when the admin route accepts application 2: job 100 is filled and
  application 1 rejected.
\<close>

definition sample_filled_db :: db where
  "sample_filled_db = snd (admin_updateApplicationStatus sample_db sample_env 2 ''accepted'')"

definition sample_register_env :: register_env where
  "sample_register_env = \<lparr>hashedPassword = ''$2a$10$hash'', token = ''jwt'',
     user_insert_fails = False, profile_insert_fails = False, commit_fails = False\<rparr>"

definition sample_register_body :: register_body where
  "sample_register_body = \<lparr>rb_email = ''new@x.io'', rb_password = ''secret1'',
     rb_firstName = ''Ann'', rb_lastName = ''Lee'', rb_phone = None,
     rb_role = ''job_seeker'', rb_companyName = None\<rparr>"

section \<open>Facts about the queries\<close>

lemma rows0_map: "rows0 (map f xs) = map_option f (rows0 xs)"
  by (cases xs) auto

lemma rows0_Some_mem: "rows0 xs = Some x \<Longrightarrow> x \<in> set xs"
  by (cases xs) auto

lemma rows0_None_iff: "rows0 xs = None \<longleftrightarrow> xs = []"
  by (cases xs) auto

lemma concat_map_empty: "(\<And>x. x \<in> set xs \<Longrightarrow> f x = []) \<Longrightarrow> concat (map f xs) = []"
  by (induction xs) auto

lemma findById_Some:
  "JobApplication_findById d i = Inr (Some a) \<Longrightarrow>
     a \<in> set (job_applications d) \<and> ja_id a = i \<and> int4_range i"
  by (auto simp: JobApplication_findById_def dest: rows0_Some_mem split: if_splits)

lemma updateStatus_fst:
  "JobApplication_findById d i = Inr (Some a) \<Longrightarrow>
   fst (JobApplication_updateStatus d t i s) = Some (a\<lparr>ja_status := s, ja_updated_at := t\<rparr>)"
  by (simp add: JobApplication_updateStatus_def JobApplication_findById_def rows0_map set_status_def
      split: if_splits)

lemma own_profile_rows_nonempty:
  "own_profile_rows d u s \<noteq> [] \<longleftrightarrow>
     (\<exists>p \<in> set (job_seeker_profiles d). jsp_user_id p = u \<and> jsp_id p = s)"
  by (auto simp: own_profile_rows_def)

lemma own_job_rows_nonempty:
  "own_job_rows d u jid \<noteq> [] \<longleftrightarrow>
     (\<exists>j \<in> set (jobs d). \<exists>ep \<in> set (employer_profiles d).
        j_id j = jid \<and> j_employer_id j = ep_id ep \<and> ep_user_id ep = u)"
  by (auto simp: own_job_rows_def)

lemma hasApplied_iff:
  "JobApplication_hasApplied d s j \<longleftrightarrow>
     (\<exists>a \<in> set (job_applications d). ja_job_seeker_id a = s \<and> ja_job_id a = j)"
  by (auto simp: JobApplication_hasApplied_def filter_empty_conv)

lemma active_job_rows_empty:
  "[j \<leftarrow> jobs d. j_id j = jobId \<and> j_status j = ''active''] = [] \<longleftrightarrow>
     \<not> (\<exists>j \<in> set (jobs d). j_id j = jobId \<and> j_status j = ''active'')"
  by (auto simp: filter_empty_conv)

text \<open>
  With intact references, an application that exists, under an id that is an
  \<open>INTEGER\<close>, is found with its details.
\<close>

lemma findById_details_exists:
  assumes "int4_range i"
      and "a \<in> set (job_applications d)" "ja_id a = i"
      and "j \<in> set (jobs d)" "j_id j = ja_job_id a"
      and "ep \<in> set (employer_profiles d)" "ep_id ep = j_employer_id j"
      and "ue \<in> set (users d)" "u_id ue = ep_user_id ep"
      and "jsp \<in> set (job_seeker_profiles d)" "jsp_id jsp = ja_job_seeker_id a"
      and "us \<in> set (users d)" "u_id us = jsp_user_id jsp"
  shows "\<exists>x. JobApplication_findById_details d i = Inr (Some x)"
proof -
  have "(a, j, ep, ue, jsp, us) \<in> set [(ja, j, ep, u_employer, jsp, u_seeker).
            ja \<leftarrow> job_applications d, ja_id ja = i,
            j \<leftarrow> jobs d, ja_job_id ja = j_id j,
            ep \<leftarrow> employer_profiles d, j_employer_id j = ep_id ep,
            u_employer \<leftarrow> users d, ep_user_id ep = u_id u_employer,
            jsp \<leftarrow> job_seeker_profiles d, ja_job_seeker_id ja = jsp_id jsp,
            u_seeker \<leftarrow> users d, jsp_user_id jsp = u_id u_seeker]"
    using assms by auto
  then have "rows0 [(ja, j, ep, u_employer, jsp, u_seeker).
            ja \<leftarrow> job_applications d, ja_id ja = i,
            j \<leftarrow> jobs d, ja_job_id ja = j_id j,
            ep \<leftarrow> employer_profiles d, j_employer_id j = ep_id ep,
            u_employer \<leftarrow> users d, ep_user_id ep = u_id u_employer,
            jsp \<leftarrow> job_seeker_profiles d, ja_job_seeker_id ja = jsp_id jsp,
            u_seeker \<leftarrow> users d, jsp_user_id jsp = u_id u_seeker] \<noteq> None"
    unfolding rows0_None_iff by (metis empty_iff empty_set)
  with assms(1) show ?thesis
    unfolding JobApplication_findById_details_def by (simp only: if_True) blast
qed

lemma findById_details_Some:
  assumes "JobApplication_findById_details d i = Inr (Some (ja, rest))"
  shows "ja \<in> set (job_applications d) \<and> ja_id ja = i"
proof -
  from assms have "rows0 [(ja, j, ep, u_employer, jsp, u_seeker).
            ja \<leftarrow> job_applications d, ja_id ja = i,
            j \<leftarrow> jobs d, ja_job_id ja = j_id j,
            ep \<leftarrow> employer_profiles d, j_employer_id j = ep_id ep,
            u_employer \<leftarrow> users d, ep_user_id ep = u_id u_employer,
            jsp \<leftarrow> job_seeker_profiles d, ja_job_seeker_id ja = jsp_id jsp,
            u_seeker \<leftarrow> users d, jsp_user_id jsp = u_id u_seeker] = Some (ja, rest)"
    unfolding JobApplication_findById_details_def by (simp split: if_splits)
  then have "(ja, rest) \<in> set [(ja, j, ep, u_employer, jsp, u_seeker).
            ja \<leftarrow> job_applications d, ja_id ja = i,
            j \<leftarrow> jobs d, ja_job_id ja = j_id j,
            ep \<leftarrow> employer_profiles d, j_employer_id j = ep_id ep,
            u_employer \<leftarrow> users d, ep_user_id ep = u_id u_employer,
            jsp \<leftarrow> job_seeker_profiles d, ja_job_seeker_id ja = jsp_id jsp,
            u_seeker \<leftarrow> users d, jsp_user_id jsp = u_id u_seeker]"
    by (rule rows0_Some_mem)
  then show ?thesis by (auto split: if_splits)
qed

lemma sample_find1: "JobApplication_findById sample_db 1 = Inr (Some sample_app1)"
  by (simp add: JobApplication_findById_def int4_range_def sample_db_def sample_app1_def
      sample_app2_def)

lemma sample_details:
  "JobApplication_findById_details sample_db 1 =
     Inr (Some (sample_app1, sample_job, \<lparr>ep_id = 10, ep_user_id = 1, ep_company_name = ''Acme''\<rparr>,
                sample_users ! 0, \<lparr>jsp_id = 20, jsp_user_id = 2\<rparr>, sample_users ! 1))"
  by (simp add: JobApplication_findById_details_def int4_range_def sample_db_def sample_users_def
      sample_job_def sample_app1_def sample_app2_def)

section \<open>Frame of the model-level status update\<close>

text \<open>
  C10. \<open>JobApplication.updateStatus\<close> keeps the number and order of application rows,
  leaves every row whose id is not the given one as it was, changes nothing but
  \<open>status\<close> and \<open>updated_at\<close> in a row with that id (its id, job_id, job_seeker_id,
  cover_letter and created_at stay), and touches no other table.
\<close>

theorem updateStatus_frame:
  "length (job_applications (snd (JobApplication_updateStatus d t i s))) = length (job_applications d)
   \<and> (\<forall>k < length (job_applications d).
        (let a = job_applications d ! k;
             a' = job_applications (snd (JobApplication_updateStatus d t i s)) ! k
         in ja_id a' = ja_id a \<and> ja_job_id a' = ja_job_id a
            \<and> ja_job_seeker_id a' = ja_job_seeker_id a
            \<and> ja_cover_letter a' = ja_cover_letter a
            \<and> ja_created_at a' = ja_created_at a
            \<and> (ja_id a \<noteq> i \<longrightarrow> a' = a)
            \<and> (ja_id a = i \<longrightarrow> a' = a\<lparr>ja_status := s, ja_updated_at := t\<rparr>)))
   \<and> snd (JobApplication_updateStatus d t i s)
       = d\<lparr>job_applications := job_applications (snd (JobApplication_updateStatus d t i s))\<rparr>"
  by (simp add: JobApplication_updateStatus_def set_status_def Let_def)

theorem updateStatus_frame_witness:
  "(1::nat) < length (job_applications sample_db)
   \<and> job_applications (snd (JobApplication_updateStatus sample_db 77 1 ''accepted'')) ! 1 = sample_app2
   \<and> job_applications (snd (JobApplication_updateStatus sample_db 77 1 ''accepted'')) ! 0
       = sample_app1\<lparr>ja_status := ''accepted'', ja_updated_at := 77\<rparr>"
  using updateStatus_frame [of sample_db 77 1 "''accepted''"]
  by (simp add: sample_db_def sample_app1_def sample_app2_def Let_def
      JobApplication_updateStatus_def set_status_def)

section \<open>Marking all notifications as read\<close>

lemma filter_unread_after:
  "[n \<leftarrow> map (\<lambda>n. if n_user_id n = u \<and> n_is_read n = False then n\<lparr>n_is_read := True\<rparr> else n) ns.
      n_user_id n = u \<and> n_is_read n = False] = []"
  by (induction ns) auto

text \<open>
  C8. \<open>markAllAsRead\<close> returns the ids of exactly the notifications of the user that
  were unread, in table order; afterwards the unread count of the user is 0; a
  notification that was already read, or that belongs to another user, is left as it
  was, and an unread one of the user differs in \<open>is_read\<close> only.
\<close>

theorem markAllAsRead_ok:
  "fst (Notification_markAllAsRead d userId)
     = map n_id [n \<leftarrow> notifications d. n_user_id n = userId \<and> \<not> n_is_read n]
   \<and> Notification_getUnreadCount (snd (Notification_markAllAsRead d userId)) userId = 0
   \<and> length (notifications (snd (Notification_markAllAsRead d userId))) = length (notifications d)
   \<and> (\<forall>k < length (notifications d).
        (let n = notifications d ! k; n' = notifications (snd (Notification_markAllAsRead d userId)) ! k
         in (n_is_read n \<or> n_user_id n \<noteq> userId \<longrightarrow> n' = n)
            \<and> (\<not> n_is_read n \<and> n_user_id n = userId \<longrightarrow> n' = n\<lparr>n_is_read := True\<rparr>)))"
  by (simp add: Notification_markAllAsRead_def Notification_getUnreadCount_def Let_def
      filter_unread_after)

theorem markAllAsRead_ok_witness:
  "fst (Notification_markAllAsRead sample_db 2) = [1, 4]
   \<and> Notification_getUnreadCount (snd (Notification_markAllAsRead sample_db 2)) 2 = 0
   \<and> (1::nat) < length (notifications sample_db)
   \<and> n_is_read (notifications sample_db ! 1)
   \<and> notifications (snd (Notification_markAllAsRead sample_db 2)) ! 1 = notifications sample_db ! 1"
  using markAllAsRead_ok [of sample_db 2]
  by (simp add: sample_db_def sample_notifications_def Let_def)

section \<open>The status update of the public route\<close>

text \<open>
  The update either answers with an error and leaves the database as it was, or it
  found the application and answers 200 with the row that the model-level update returns.
\<close>

lemma updateApplicationStatus_shape:
  "(\<exists>err. updateApplicationStatus d e usr i s = (Inl err, d))
   \<or> (\<exists>a. JobApplication_findById d i = Inr (Some a)
        \<and> fst (updateApplicationStatus d e usr i s) =
            Inr (successResponse 200 ''Application status updated successfully''
                   (json_of_application (fst (JobApplication_updateStatus d (now e) i s)))))"
  by (simp only: updateApplicationStatus_def Let_def split_beta fst_conv
       split: if_split option.split sum.split) blast

text \<open>
  The lookup precedes the checks of role and ownership: for a valid status, an id that
  is an \<open>INTEGER\<close> without an application is answered 404, and an id that is no
  \<open>INTEGER\<close> with the error 22003 (500), whatever the role; nothing is written.
\<close>

lemma updateApplicationStatus_lookup_first:
  assumes "status \<in> set validStatusValues"
  shows "int4_range i \<and> (\<forall>a \<in> set (job_applications d). ja_id a \<noteq> i) \<longrightarrow>
           updateApplicationStatus d e usr i status = (Inl (ApiError 404 ''Application not found''), d)"
    and "\<not> int4_range i \<longrightarrow>
           updateApplicationStatus d e usr i status = (Inl (PgError ''22003''), d)"
proof -
  show "int4_range i \<and> (\<forall>a \<in> set (job_applications d). ja_id a \<noteq> i) \<longrightarrow>
           updateApplicationStatus d e usr i status = (Inl (ApiError 404 ''Application not found''), d)"
  proof
    assume h: "int4_range i \<and> (\<forall>a \<in> set (job_applications d). ja_id a \<noteq> i)"
    then have "[a \<leftarrow> job_applications d. ja_id a = i] = []"
      by (simp add: filter_empty_conv)
    with h have f: "JobApplication_findById d i = Inr None"
      by (simp add: JobApplication_findById_def)
    from assms f show "updateApplicationStatus d e usr i status
                         = (Inl (ApiError 404 ''Application not found''), d)"
      unfolding updateApplicationStatus_def
      by (simp only: if_True if_False not_True_eq_False not_False_eq_True simp_thms
            option.case sum.case)
  qed
  show "\<not> int4_range i \<longrightarrow>
           updateApplicationStatus d e usr i status = (Inl (PgError ''22003''), d)"
  proof
    assume "\<not> int4_range i"
    then have f: "JobApplication_findById d i = Inl (PgError ''22003'')"
      by (simp add: JobApplication_findById_def)
    from assms f show "updateApplicationStatus d e usr i status = (Inl (PgError ''22003''), d)"
      unfolding updateApplicationStatus_def
      by (simp only: if_True if_False not_True_eq_False not_False_eq_True simp_thms
            option.case sum.case)
  qed
qed

text \<open>
  C3, as the code has it. When the requested status is one of the four valid ones and
  the application exists, an employer asking for anything but accepted or rejected, and
  a job seeker asking for anything but withdrawn, get the 400 of the role's transition
  rule and nothing is written, whoever owns the job or the application: no ownership
  query is consulted. (The lookup comes before this check: an id without an application
  is answered 404, and an id that is no \<open>INTEGER\<close> 500.)
\<close>

theorem updateApplicationStatus_invalid_transition:
  assumes "status \<in> set validStatusValues"
      and "JobApplication_findById d i = Inr (Some a)"
      and "(ru_role usr = ''employer'' \<and> status \<notin> set [''accepted'', ''rejected''])
           \<or> (ru_role usr = ''job_seeker'' \<and> status \<noteq> ''withdrawn'')"
  shows "updateApplicationStatus d e usr i status =
           (Inl (ApiError 400 (if ru_role usr = ''employer''
                               then ''Employers can only accept or reject applications''
                               else ''Job seekers can only withdraw their applications'')), d)"
  using assms(3)
proof (elim disjE conjE)
  assume "ru_role usr = ''employer''" "status \<notin> set [''accepted'', ''rejected'']"
  with assms(1,2) show ?thesis
    unfolding updateApplicationStatus_def
    by (simp only: if_True if_False not_True_eq_False not_False_eq_True simp_thms
          option.case sum.case)
next
  assume r: "ru_role usr = ''job_seeker''" and w: "status \<noteq> ''withdrawn''"
  have ne: "ru_role usr \<noteq> ''employer''" using r by simp
  from assms(1,2) r w ne show ?thesis
    unfolding updateApplicationStatus_def
    by (simp only: if_True if_False not_True_eq_False not_False_eq_True simp_thms
          option.case sum.case)
qed

theorem updateApplicationStatus_invalid_transition_witness:
  "updateApplicationStatus sample_db sample_env sample_employer 1 ''withdrawn'' =
     (Inl (ApiError 400 ''Employers can only accept or reject applications''), sample_db)"
  using updateApplicationStatus_invalid_transition
          [of "''withdrawn''" sample_db 1 sample_app1 sample_employer sample_env]
  by (simp add: validStatusValues_def sample_find1 sample_employer_def)

text \<open>
  An employer asking to withdraw an application that does not exist is answered 404,
  not the 400 of the transition rule.
\<close>

theorem invalid_transition_counterexample:
  "ru_role sample_employer = ''employer''
   \<and> ''withdrawn'' \<notin> set [''accepted'', ''rejected'']
   \<and> updateApplicationStatus sample_db sample_env sample_employer 999 ''withdrawn''
       = (Inl (ApiError 404 ''Application not found''), sample_db)"
  by (simp add: updateApplicationStatus_def validStatusValues_def JobApplication_findById_def
      int4_range_def sample_db_def sample_app1_def sample_app2_def sample_employer_def)

lemma sample_employer_accept:
  "fst (updateApplicationStatus sample_db sample_env sample_employer 1 ''accepted'')
     = Inr (successResponse 200 ''Application status updated successfully''
              (JObj (application_row sample_accepted1)))"
  "job_applications (snd (updateApplicationStatus sample_db sample_env sample_employer 1 ''accepted''))
     = [sample_accepted1, sample_app2]"
  "jobs (snd (updateApplicationStatus sample_db sample_env sample_employer 1 ''accepted''))
     = [sample_job]"
  by code_simp+

text \<open>
  C5, as the code has it. A successful status update answers 200 with the updated row
  of \<open>job_applications\<close>: its seven columns, the id asked for and the new status. The
  object has no \<open>job_title\<close>.
\<close>

theorem updateApplicationStatus_returns_row:
  assumes "fst (updateApplicationStatus d e usr i s) = Inr r"
  shows "\<exists>a. JobApplication_findById d i = Inr (Some a)
           \<and> r = successResponse 200 ''Application status updated successfully''
                   (JObj (application_row (a\<lparr>ja_status := s, ja_updated_at := now e\<rparr>)))
           \<and> json_field (data r) ''id'' = Some (JInt i)
           \<and> json_field (data r) ''status'' = Some (JStr s)
           \<and> json_field (data r) ''job_title'' = None
           \<and> map fst (application_row (a\<lparr>ja_status := s, ja_updated_at := now e\<rparr>))
               = [''id'', ''job_id'', ''job_seeker_id'', ''cover_letter'', ''status'',
                  ''created_at'', ''updated_at'']"
proof -
  from updateApplicationStatus_shape [of d e usr i s] assms
  obtain a where a: "JobApplication_findById d i = Inr (Some a)"
    and r: "r = successResponse 200 ''Application status updated successfully''
                   (json_of_application (fst (JobApplication_updateStatus d (now e) i s)))"
    by auto
  have upd: "fst (JobApplication_updateStatus d (now e) i s)
               = Some (a\<lparr>ja_status := s, ja_updated_at := now e\<rparr>)"
    by (rule updateStatus_fst [OF a])
  have ida: "ja_id a = i" using findById_Some [OF a] by simp
  have keys: "map fst (application_row (a\<lparr>ja_status := s, ja_updated_at := now e\<rparr>))
               = [''id'', ''job_id'', ''job_seeker_id'', ''cover_letter'', ''status'',
                  ''created_at'', ''updated_at'']"
    by (simp add: application_row_def)
  have "json_field (data r) ''id'' = Some (JInt i)"
       "json_field (data r) ''status'' = Some (JStr s)"
       "json_field (data r) ''job_title'' = None"
    using ida by (simp_all add: r upd successResponse_def application_row_def)
  with a r upd keys show ?thesis by simp
qed

theorem updateApplicationStatus_returns_row_witness:
  "fst (updateApplicationStatus sample_db sample_env sample_employer 1 ''accepted'')
     = Inr (successResponse 200 ''Application status updated successfully''
              (JObj (application_row sample_accepted1)))
   \<and> json_field (data (successResponse 200 ''Application status updated successfully''
                          (JObj (application_row sample_accepted1)))) ''status''
       = Some (JStr ''accepted'')"
proof -
  from updateApplicationStatus_returns_row [OF sample_employer_accept(1)]
  have "json_field (data (successResponse 200 ''Application status updated successfully''
                          (JObj (application_row sample_accepted1)))) ''status''
       = Some (JStr ''accepted'')"
    by (elim exE conjE)
  with sample_employer_accept(1) show ?thesis by (rule conjI)
qed

text \<open>The answer to the employer who accepts application 1 carries no job title.\<close>

theorem status_update_response_counterexample:
  "fst (updateApplicationStatus sample_db sample_env sample_employer 1 ''accepted'')
     = Inr (successResponse 200 ''Application status updated successfully''
              (JObj (application_row sample_accepted1)))
   \<and> json_field (data (successResponse 200 ''Application status updated successfully''
                          (JObj (application_row sample_accepted1)))) ''job_title'' = None"
  by (simp add: sample_employer_accept(1)) (simp add: successResponse_def application_row_def)

section \<open>The cascade on acceptance\<close>

lemma Notification_create_frame:
  "Notification_create d e u t m ty r = Inr (n, d') \<Longrightarrow>
     job_applications d' = job_applications d \<and> jobs d' = jobs d"
  by (auto simp: Notification_create_def Let_def split: if_splits)

lemma status_notification_frame:
  assumes "status_notification d e usr i s = Inr d'"
  shows "job_applications d' = job_applications d \<and> jobs d' = jobs d"
  using assms
  by (auto simp: status_notification_def createApplicationStatusNotification_def Let_def split_beta
      split: if_splits list.splits option.splits sum.splits prod.splits
      dest!: Notification_create_frame)

lemma updateApplicationStatus_snd:
  "snd (updateApplicationStatus d e usr i s) = d
   \<or> snd (updateApplicationStatus d e usr i s) = snd (JobApplication_updateStatus d (now e) i s)
   \<or> status_notification (snd (JobApplication_updateStatus d (now e) i s)) e usr i s
        = Inr (snd (updateApplicationStatus d e usr i s))"
  by (simp only: updateApplicationStatus_def Let_def split_beta snd_conv
       split: if_split option.split sum.split) blast

text \<open>
  The status update of the public route never writes the jobs table and never changes
  an application other than the one it is asked about, whatever the role and the status.
\<close>

lemma updateApplicationStatus_no_cascade:
  "jobs (snd (updateApplicationStatus d e usr i s)) = jobs d
   \<and> length (job_applications (snd (updateApplicationStatus d e usr i s))) = length (job_applications d)
   \<and> (\<forall>k < length (job_applications d).
         ja_id (job_applications d ! k) \<noteq> i \<longrightarrow>
         job_applications (snd (updateApplicationStatus d e usr i s)) ! k = job_applications d ! k)"
proof -
  let ?u = "snd (JobApplication_updateStatus d (now e) i s)"
  have u: "jobs ?u = jobs d \<and> length (job_applications ?u) = length (job_applications d)
           \<and> (\<forall>k < length (job_applications d).
                 ja_id (job_applications d ! k) \<noteq> i \<longrightarrow> job_applications ?u ! k = job_applications d ! k)"
    by (simp add: JobApplication_updateStatus_def)
  from updateApplicationStatus_snd [of d e usr i s] show ?thesis
  proof (elim disjE)
    assume "snd (updateApplicationStatus d e usr i s) = d"
    then show ?thesis by simp
  next
    assume "snd (updateApplicationStatus d e usr i s) = ?u"
    with u show ?thesis by simp
  next
    assume "status_notification ?u e usr i s = Inr (snd (updateApplicationStatus d e usr i s))"
    from status_notification_frame [OF this] u show ?thesis by simp
  qed
qed

text \<open>
  C1. The employer who owns job 100 accepts application 1 through the public route: the
  answer is 200 and application 1 is accepted, but application 2, pending on the same
  job, stays pending, and job 100 stays active.
\<close>

theorem public_accept_without_cascade:
  "fst (updateApplicationStatus sample_db sample_env sample_employer 1 ''accepted'')
     = Inr (successResponse 200 ''Application status updated successfully''
              (JObj (application_row sample_accepted1)))
   \<and> job_applications (snd (updateApplicationStatus sample_db sample_env sample_employer 1 ''accepted''))
     = [sample_accepted1, sample_app2]
   \<and> ja_job_id sample_app2 = ja_job_id sample_accepted1
   \<and> ja_status sample_app2 = ''pending''
   \<and> jobs (snd (updateApplicationStatus sample_db sample_env sample_employer 1 ''accepted''))
     = [sample_job]
   \<and> j_id sample_job = ja_job_id sample_accepted1
   \<and> j_status sample_job = ''active''"
  by (simp add: sample_employer_accept)
     (simp add: sample_app1_def sample_app2_def sample_job_def sample_accepted1_def)

text \<open>
  The admin route does cascade: accepting application \<open>i\<close> rejects the other pending
  applications of its job, leaves the rest, and marks the job filled, whatever the
  status of the job was.
\<close>

lemma admin_accept_snd:
  assumes "int4_range i" and "[a \<leftarrow> job_applications d. ja_id a = i] = c # cs"
  shows "snd (admin_updateApplicationStatus d e i ''accepted'') =
           d\<lparr>job_applications :=
                map (reject_other_pending (now e) (ja_job_id c) i)
                  (map (\<lambda>a. if ja_id a = i then set_status ''accepted'' (now e) a else a)
                     (job_applications d)),
              jobs := map (fill_job (now e) (ja_job_id c)) (jobs d)\<rparr>"
  using assms
  by (simp add: admin_updateApplicationStatus_def JobApplication_updateStatus_def Let_def)

lemma admin_accept_cascade:
  assumes "int4_range i" and "[a \<leftarrow> job_applications d. ja_id a = i] = c # cs"
  shows "length (job_applications (snd (admin_updateApplicationStatus d e i ''accepted'')))
           = length (job_applications d)
     \<and> (\<forall>k < length (job_applications d).
          (let a = job_applications d ! k;
               a' = job_applications (snd (admin_updateApplicationStatus d e i ''accepted'')) ! k
           in (ja_id a = i \<longrightarrow> a' = a\<lparr>ja_status := ''accepted'', ja_updated_at := now e\<rparr>)
            \<and> (ja_id a \<noteq> i \<and> ja_job_id a = ja_job_id c \<and> ja_status a = ''pending''
                 \<longrightarrow> a' = a\<lparr>ja_status := ''rejected'', ja_updated_at := now e\<rparr>)
            \<and> (ja_id a \<noteq> i \<and> (ja_job_id a \<noteq> ja_job_id c \<or> ja_status a \<noteq> ''pending'')
                 \<longrightarrow> a' = a)))
     \<and> (\<forall>j \<in> set (jobs (snd (admin_updateApplicationStatus d e i ''accepted''))).
          j_id j = ja_job_id c \<longrightarrow> j_status j = ''filled'')"
  unfolding admin_accept_snd [OF assms]
  by (auto simp: reject_other_pending_def set_status_def fill_job_def Let_def)

section \<open>Failures of the notification\<close>

lemma updateApplicationStatus_fst_env:
  assumes n: "now e' = now e"
  shows "fst (updateApplicationStatus d e' usr i s) = fst (updateApplicationStatus d e usr i s)"
  by (simp only: updateApplicationStatus_def Let_def split_beta
        if_distrib [of fst] option.case_distrib [of fst] sum.case_distrib [of fst] fst_conv n)

lemma updateApplicationStatus_tables:
  "(\<exists>err. fst (updateApplicationStatus d e usr i s) = Inl err
          \<and> snd (updateApplicationStatus d e usr i s) = d)
   \<or> (\<exists>r. fst (updateApplicationStatus d e usr i s) = Inr r
          \<and> job_applications (snd (updateApplicationStatus d e usr i s))
              = job_applications (snd (JobApplication_updateStatus d (now e) i s)))"
proof -
  let ?u = "snd (JobApplication_updateStatus d (now e) i s)"
  have "(\<exists>err. updateApplicationStatus d e usr i s = (Inl err, d))
     \<or> (\<exists>r. fst (updateApplicationStatus d e usr i s) = Inr r
           \<and> (snd (updateApplicationStatus d e usr i s) = ?u
              \<or> status_notification ?u e usr i s = Inr (snd (updateApplicationStatus d e usr i s))))"
    by (simp only: updateApplicationStatus_def Let_def split_beta snd_conv fst_conv
         split: if_split option.split sum.split) blast
  then show ?thesis
  proof (elim disjE exE conjE)
    fix err assume "updateApplicationStatus d e usr i s = (Inl err, d)"
    then show ?thesis by simp
  next
    fix r assume "fst (updateApplicationStatus d e usr i s) = Inr r"
      "snd (updateApplicationStatus d e usr i s) = ?u"
    then show ?thesis by simp
  next
    fix r assume r: "fst (updateApplicationStatus d e usr i s) = Inr r"
      and n: "status_notification ?u e usr i s = Inr (snd (updateApplicationStatus d e usr i s))"
    from status_notification_frame [OF n] r show ?thesis by simp
  qed
qed

text \<open>
  In the status update, faults of the notification path change neither the answer nor
  the application rows: the inner \<open>try\<close> contains them.
\<close>

lemma updateApplicationStatus_contains_notification_failure:
  "fst (updateApplicationStatus d (e\<lparr>details_query_fails := f1, notification_insert_fails := f2\<rparr>) usr i s)
     = fst (updateApplicationStatus d e usr i s)
   \<and> job_applications (snd (updateApplicationStatus d
          (e\<lparr>details_query_fails := f1, notification_insert_fails := f2\<rparr>) usr i s))
     = job_applications (snd (updateApplicationStatus d e usr i s))"
proof -
  let ?e = "e\<lparr>details_query_fails := f1, notification_insert_fails := f2\<rparr>"
  have n: "now ?e = now e" by simp
  have f: "fst (updateApplicationStatus d ?e usr i s) = fst (updateApplicationStatus d e usr i s)"
    by (rule updateApplicationStatus_fst_env [OF n])
  from updateApplicationStatus_tables [of d ?e usr i s]
       updateApplicationStatus_tables [of d e usr i s] f n
  show ?thesis by auto
qed

text \<open>
  C2. User 6 applies for job 100 while the insert of the notification fails: the
  application row is stored, but the request is answered with the storage error (500)
  instead of the 201 it gets when the insert works.
\<close>

theorem applyForJob_notification_failure_propagates:
  "fst (applyForJob sample_db (sample_env\<lparr>notification_insert_fails := True\<rparr>) sample_seeker6 100 None)
     = Inl StorageError
   \<and> errorHandler_status StorageError = 500
   \<and> job_applications (snd (applyForJob sample_db (sample_env\<lparr>notification_insert_fails := True\<rparr>)
                                sample_seeker6 100 None))
     = [sample_app1, sample_app2, sample_app3]
   \<and> map_sum id statusCode (fst (applyForJob sample_db sample_env sample_seeker6 100 None)) = Inr 201"
  by code_simp

section \<open>One application per job and job seeker\<close>

lemma createNewApplicationNotification_frame:
  "createNewApplicationNotification d e a t f l u = Inr (n, d') \<Longrightarrow>
     job_applications d' = job_applications d"
  by (auto simp: createNewApplicationNotification_def Notification_create_def Let_def split: if_splits)

text \<open>
  \<open>applyForJob\<close> either refuses and leaves the database as it was, or appends exactly one
  pending row for the caller's first profile and the requested job, a pair that had no row.
\<close>

lemma applyForJob_shape:
  "(\<exists>err. applyForJob d e usr jobId cl = (Inl err, d))
   \<or> (\<exists>p ps. [jsp \<leftarrow> job_seeker_profiles d. jsp_user_id jsp = ru_id usr] = p # ps
        \<and> \<not> JobApplication_hasApplied d (jsp_id p) jobId
        \<and> job_applications (snd (applyForJob d e usr jobId cl))
            = job_applications d @
              [\<lparr>ja_id = job_applications_id_seq d, ja_job_id = jobId,
                ja_job_seeker_id = jsp_id p, ja_cover_letter = cl,
                ja_status = ''pending'', ja_created_at = now e, ja_updated_at = now e\<rparr>])"
proof (cases "[jsp \<leftarrow> job_seeker_profiles d. jsp_user_id jsp = ru_id usr]")
  case Nil
  then show ?thesis by (simp add: applyForJob_def)
next
  case (Cons p ps)
  note prof = Cons
  show ?thesis
  proof (cases "[j \<leftarrow> jobs d. j_id j = jobId \<and> j_status j = ''active'']")
    case Nil
    with prof show ?thesis by (simp add: applyForJob_def)
  next
    case (Cons job js)
    note jb = Cons
    show ?thesis
    proof (cases "JobApplication_hasApplied d (jsp_id p) jobId")
      case True
      with prof jb show ?thesis by (simp add: applyForJob_def)
    next
      case False
      let ?row = "\<lparr>ja_id = job_applications_id_seq d, ja_job_id = jobId,
                ja_job_seeker_id = jsp_id p, ja_cover_letter = cl,
                ja_status = ''pending'', ja_created_at = now e, ja_updated_at = now e\<rparr>"
      let ?d1 = "d\<lparr>job_applications := job_applications d @ [?row],
                   job_applications_id_seq := job_applications_id_seq d + 1\<rparr>"
      have cr: "JobApplication_create d (now e) cl (jsp_id p) jobId = (?row, ?d1)"
        by (simp add: JobApplication_create_def Let_def)
      have "job_applications (snd (applyForJob d e usr jobId cl)) = job_applications ?d1"
        using prof jb False cr
        by (auto simp: applyForJob_def Let_def split: list.splits sum.splits prod.splits
             dest!: createNewApplicationNotification_frame)
      with prof False show ?thesis by simp
    qed
  qed
qed

text \<open>
  C4, as the code has it. When the caller's profile already has an application row for
  the job, of any status, \<open>applyForJob\<close> writes nothing and fails: with the 400 of the
  duplicate check when the job is active, and with the 404 of the job check, which comes
  first, when it is not. So a call never adds a row for a pair that has one: if the
  pairs (job, job seeker) of the table are distinct before, they are distinct after.
\<close>

theorem applyForJob_duplicate:
  "([jsp \<leftarrow> job_seeker_profiles d. jsp_user_id jsp = ru_id usr] = p # ps
      \<and> (\<exists>a \<in> set (job_applications d). ja_job_id a = jobId \<and> ja_job_seeker_id a = jsp_id p)
     \<longrightarrow> snd (applyForJob d e usr jobId cl) = d
         \<and> ((\<exists>j \<in> set (jobs d). j_id j = jobId \<and> j_status j = ''active'') \<longrightarrow>
              fst (applyForJob d e usr jobId cl)
                = Inl (ApiError 400 ''You have already applied for this job''))
         \<and> (\<not> (\<exists>j \<in> set (jobs d). j_id j = jobId \<and> j_status j = ''active'') \<longrightarrow>
              fst (applyForJob d e usr jobId cl)
                = Inl (ApiError 404 ''Job not found or not active'')))
   \<and> (distinct (map (\<lambda>a. (ja_job_id a, ja_job_seeker_id a)) (job_applications d)) \<longrightarrow>
        distinct (map (\<lambda>a. (ja_job_id a, ja_job_seeker_id a))
                    (job_applications (snd (applyForJob d e usr jobId cl)))))"
proof (intro conjI impI)
  assume h: "[jsp \<leftarrow> job_seeker_profiles d. jsp_user_id jsp = ru_id usr] = p # ps
      \<and> (\<exists>a \<in> set (job_applications d). ja_job_id a = jobId \<and> ja_job_seeker_id a = jsp_id p)"
  then have prof: "[jsp \<leftarrow> job_seeker_profiles d. jsp_user_id jsp = ru_id usr] = p # ps"
    and applied: "JobApplication_hasApplied d (jsp_id p) jobId"
    by (auto simp: hasApplied_iff)
  show "snd (applyForJob d e usr jobId cl) = d"
    using prof applied by (simp add: applyForJob_def Let_def split: list.splits)
  {
    assume "\<exists>j \<in> set (jobs d). j_id j = jobId \<and> j_status j = ''active''"
    then have "[j \<leftarrow> jobs d. j_id j = jobId \<and> j_status j = ''active''] \<noteq> []"
      using active_job_rows_empty [of jobId d] by blast
    then show "fst (applyForJob d e usr jobId cl)
                = Inl (ApiError 400 ''You have already applied for this job'')"
      using prof applied by (simp add: applyForJob_def Let_def split: list.splits)
  }
  {
    assume "\<not> (\<exists>j \<in> set (jobs d). j_id j = jobId \<and> j_status j = ''active'')"
    then have "[j \<leftarrow> jobs d. j_id j = jobId \<and> j_status j = ''active''] = []"
      using active_job_rows_empty [of jobId d] by blast
    then show "fst (applyForJob d e usr jobId cl)
                = Inl (ApiError 404 ''Job not found or not active'')"
      using prof by (simp add: applyForJob_def Let_def)
  }
next
  assume dist: "distinct (map (\<lambda>a. (ja_job_id a, ja_job_seeker_id a)) (job_applications d))"
  from applyForJob_shape [of d e usr jobId cl]
  show "distinct (map (\<lambda>a. (ja_job_id a, ja_job_seeker_id a))
                    (job_applications (snd (applyForJob d e usr jobId cl))))"
  proof (elim disjE exE conjE)
    fix err assume "applyForJob d e usr jobId cl = (Inl err, d)"
    with dist show ?thesis by simp
  next
    fix p ps
    assume na: "\<not> JobApplication_hasApplied d (jsp_id p) jobId"
      and apps: "job_applications (snd (applyForJob d e usr jobId cl))
            = job_applications d @
              [\<lparr>ja_id = job_applications_id_seq d, ja_job_id = jobId,
                ja_job_seeker_id = jsp_id p, ja_cover_letter = cl,
                ja_status = ''pending'', ja_created_at = now e, ja_updated_at = now e\<rparr>]"
    from na have "(jobId, jsp_id p) \<notin> (\<lambda>a. (ja_job_id a, ja_job_seeker_id a)) ` set (job_applications d)"
      by (auto simp: hasApplied_iff)
    with dist apps show ?thesis by simp
  qed
qed

theorem applyForJob_duplicate_witness:
  "applyForJob sample_db sample_env sample_seeker2 100 None
     = (Inl (ApiError 400 ''You have already applied for this job''), sample_db)
   \<and> distinct (map (\<lambda>a. (ja_job_id a, ja_job_seeker_id a)) (job_applications sample_db))
   \<and> distinct (map (\<lambda>a. (ja_job_id a, ja_job_seeker_id a))
        (job_applications (snd (applyForJob sample_db sample_env sample_seeker2 100 None))))"
proof -
  have prof: "[jsp \<leftarrow> job_seeker_profiles sample_db. jsp_user_id jsp = ru_id sample_seeker2]
                = \<lparr>jsp_id = 20, jsp_user_id = 2\<rparr> # []"
    by (simp add: sample_db_def sample_seeker2_def)
  have ex: "\<exists>a \<in> set (job_applications sample_db).
              ja_job_id a = 100 \<and> ja_job_seeker_id a = jsp_id \<lparr>jsp_id = 20, jsp_user_id = 2\<rparr>"
    by (simp add: sample_db_def sample_app1_def)
  have act: "\<exists>j \<in> set (jobs sample_db). j_id j = 100 \<and> j_status j = ''active''"
    by (simp add: sample_db_def sample_job_def)
  have dist: "distinct (map (\<lambda>a. (ja_job_id a, ja_job_seeker_id a)) (job_applications sample_db))"
    by (simp add: sample_db_def sample_app1_def sample_app2_def)
  from applyForJob_duplicate [where d = sample_db and usr = sample_seeker2
         and p = "\<lparr>jsp_id = 20, jsp_user_id = 2\<rparr>" and ps = "[]" and jobId = 100
         and e = sample_env and cl = None] prof ex act dist
  show ?thesis by (simp add: prod_eq_iff)
qed

text \<open>
  Job 100 is filled and user 2, whose application to it was rejected, applies again:
  the answer is the 404 of the job check, not the 400 of the duplicate check.
\<close>

theorem applyForJob_duplicate_counterexample:
  "JobApplication_hasApplied sample_filled_db 20 100
   \<and> job_seeker_profiles sample_filled_db
       = [\<lparr>jsp_id = 20, jsp_user_id = 2\<rparr>, \<lparr>jsp_id = 30, jsp_user_id = 3\<rparr>,
          \<lparr>jsp_id = 60, jsp_user_id = 6\<rparr>]
   \<and> ru_id sample_seeker2 = 2
   \<and> applyForJob sample_filled_db sample_env sample_seeker2 100 None
       = (Inl (ApiError 404 ''Job not found or not active''), sample_filled_db)"
  by code_simp

section \<open>Who may view an application\<close>

text \<open>
  C6, as the code has it. For an application that is found, \<open>getApplicationById\<close>
  answers 200 with its details exactly when the caller is a job seeker whose own profile
  submitted it, an employer whose own profile posted its job, or an admin, and 403 for
  every other caller. When the id is an \<open>INTEGER\<close> that no application has, it answers
  404; when the id is outside \<open>INTEGER\<close>, the query throws and the answer is the
  500 of the error 22003, whoever asks.
\<close>

theorem getApplicationById_authorization:
  "(JobApplication_findById_details d i = Inr (Some (ja, rest)) \<longrightarrow>
      getApplicationById d usr i =
        (if (ru_role usr = ''job_seeker'' \<and>
               (\<exists>p \<in> set (job_seeker_profiles d).
                  jsp_user_id p = ru_id usr \<and> jsp_id p = ja_job_seeker_id ja))
            \<or> (ru_role usr = ''employer'' \<and>
               (\<exists>j \<in> set (jobs d). \<exists>ep \<in> set (employer_profiles d).
                  j_id j = ja_job_id ja \<and> j_employer_id j = ep_id ep \<and> ep_user_id ep = ru_id usr))
            \<or> ru_role usr = ''admin''
         then Inr (successResponse 200 ''Application retrieved successfully''
                     (JObj (details_row (ja, rest))))
         else Inl (ApiError 403 ''You are not authorized to view this application'')))
   \<and> (int4_range i \<and> (\<forall>a \<in> set (job_applications d). ja_id a \<noteq> i) \<longrightarrow>
        getApplicationById d usr i = Inl (ApiError 404 ''Application not found''))
   \<and> (\<not> int4_range i \<longrightarrow>
        getApplicationById d usr i = Inl (PgError ''22003'')
        \<and> errorHandler_status (PgError ''22003'') = 500)"
proof (intro conjI impI)
  assume found: "JobApplication_findById_details d i = Inr (Some (ja, rest))"
  show "getApplicationById d usr i =
        (if (ru_role usr = ''job_seeker'' \<and>
               (\<exists>p \<in> set (job_seeker_profiles d).
                  jsp_user_id p = ru_id usr \<and> jsp_id p = ja_job_seeker_id ja))
            \<or> (ru_role usr = ''employer'' \<and>
               (\<exists>j \<in> set (jobs d). \<exists>ep \<in> set (employer_profiles d).
                  j_id j = ja_job_id ja \<and> j_employer_id j = ep_id ep \<and> ep_user_id ep = ru_id usr))
            \<or> ru_role usr = ''admin''
         then Inr (successResponse 200 ''Application retrieved successfully''
                     (JObj (details_row (ja, rest))))
         else Inl (ApiError 403 ''You are not authorized to view this application''))"
    unfolding getApplicationById_def own_profile_rows_nonempty own_job_rows_nonempty
    using found by (simp add: Let_def)
next
  assume h: "int4_range i \<and> (\<forall>a \<in> set (job_applications d). ja_id a \<noteq> i)"
  then have none: "\<forall>a \<in> set (job_applications d). ja_id a \<noteq> i" and r: "int4_range i"
    by simp_all
  have "[(ja, j, ep, u_employer, jsp, u_seeker).
            ja \<leftarrow> job_applications d, ja_id ja = i,
            j \<leftarrow> jobs d, ja_job_id ja = j_id j,
            ep \<leftarrow> employer_profiles d, j_employer_id j = ep_id ep,
            u_employer \<leftarrow> users d, ep_user_id ep = u_id u_employer,
            jsp \<leftarrow> job_seeker_profiles d, ja_job_seeker_id ja = jsp_id jsp,
            u_seeker \<leftarrow> users d, jsp_user_id jsp = u_id u_seeker] = []"
    by (subst concat_map_empty) (use none in auto)
  with r have "JobApplication_findById_details d i = Inr None"
    unfolding JobApplication_findById_details_def by (simp only: if_True rows0.simps)
  then show "getApplicationById d usr i = Inl (ApiError 404 ''Application not found'')"
    by (simp add: getApplicationById_def)
next
  assume "\<not> int4_range i"
  then have "JobApplication_findById_details d i = Inl (PgError ''22003'')"
    by (simp add: JobApplication_findById_details_def)
  then show "getApplicationById d usr i = Inl (PgError ''22003'')"
    by (simp add: getApplicationById_def)
next
  show "errorHandler_status (PgError ''22003'') = 500" by simp
qed

theorem getApplicationById_authorization_witness:
  "getApplicationById sample_db sample_seeker3 1
     = Inl (ApiError 403 ''You are not authorized to view this application'')
   \<and> map_sum id statusCode (getApplicationById sample_db sample_seeker2 1) = Inr 200
   \<and> map ja_id (job_applications sample_db) = [1, 2]
   \<and> int4_range 999
   \<and> getApplicationById sample_db sample_seeker2 999 = Inl (ApiError 404 ''Application not found'')
   \<and> \<not> int4_range 4294967296
   \<and> getApplicationById sample_db sample_seeker2 4294967296 = Inl (PgError ''22003'')"
proof -
  have ids: "map ja_id (job_applications sample_db) = [1, 2]"
    by (simp add: sample_db_def sample_app1_def sample_app2_def)
  have none: "\<forall>a \<in> set (job_applications sample_db). ja_id a \<noteq> 999"
    by (simp add: sample_db_def sample_app1_def sample_app2_def)
  have r: "int4_range 999" and nr: "\<not> int4_range 4294967296"
    by (simp_all add: int4_range_def)
  have a: "getApplicationById sample_db sample_seeker3 1
     = Inl (ApiError 403 ''You are not authorized to view this application'')"
    using getApplicationById_authorization [where d = sample_db and i = 1 and usr = sample_seeker3]
          sample_details
    by (simp add: sample_db_def sample_app1_def sample_seeker3_def)
  have b: "map_sum id statusCode (getApplicationById sample_db sample_seeker2 1) = Inr 200"
    using getApplicationById_authorization [where d = sample_db and i = 1 and usr = sample_seeker2]
          sample_details
    by (simp add: sample_db_def sample_app1_def sample_seeker2_def successResponse_def)
  have c: "getApplicationById sample_db sample_seeker2 999 = Inl (ApiError 404 ''Application not found'')"
    using getApplicationById_authorization [where d = sample_db and i = 999 and usr = sample_seeker2]
          none r
    by simp
  have e: "getApplicationById sample_db sample_seeker2 4294967296 = Inl (PgError ''22003'')"
    using getApplicationById_authorization
            [where d = sample_db and i = 4294967296 and usr = sample_seeker2] nr
    by simp
  from a b ids r c nr e show ?thesis by simp
qed

text \<open>
  No application has the id 2147483648, one beyond the largest \<open>INTEGER\<close>; the job
  seeker who asks for it is answered 500, not 404.
\<close>

theorem getApplicationById_not_found_counterexample:
  "map ja_id (job_applications sample_db) = [1, 2]
   \<and> getApplicationById sample_db sample_seeker2 2147483648 = Inl (PgError ''22003'')
   \<and> errorHandler_status (PgError ''22003'') = 500"
  by (simp add: getApplicationById_def JobApplication_findById_details_def int4_range_def
      sample_db_def sample_app1_def sample_app2_def)

section \<open>Registration\<close>

text \<open>
  The transaction block by itself is all or nothing: it either commits the user with
  the profile of its role, or leaves every table as it was.
\<close>

lemma register_transaction_atomic:
  assumes "rb_role b = ''job_seeker'' \<or> rb_role b = ''employer''"
  shows "(\<exists>r u. register_transaction d e b = (Inr r, snd (register_transaction d e b))
            \<and> users (snd (register_transaction d e b)) = users d @ [u]
            \<and> u_role u = rb_role b
            \<and> (if rb_role b = ''job_seeker''
                then job_seeker_profiles (snd (register_transaction d e b))
                       = job_seeker_profiles d @
                           [\<lparr>jsp_id = job_seeker_profiles_id_seq d, jsp_user_id = u_id u\<rparr>]
                     \<and> employer_profiles (snd (register_transaction d e b)) = employer_profiles d
                else job_seeker_profiles (snd (register_transaction d e b)) = job_seeker_profiles d
                     \<and> (\<exists>p. employer_profiles (snd (register_transaction d e b))
                               = employer_profiles d @ [p] \<and> ep_user_id p = u_id u)))
       \<or> (fst (register_transaction d e b) = Inl StorageError
            \<and> users (snd (register_transaction d e b)) = users d
            \<and> job_seeker_profiles (snd (register_transaction d e b)) = job_seeker_profiles d
            \<and> employer_profiles (snd (register_transaction d e b)) = employer_profiles d)"
proof (cases "user_insert_fails e \<or> profile_insert_fails e \<or> commit_fails e")
  case True
  then have "fst (register_transaction d e b) = Inl StorageError
            \<and> users (snd (register_transaction d e b)) = users d
            \<and> job_seeker_profiles (snd (register_transaction d e b)) = job_seeker_profiles d
            \<and> employer_profiles (snd (register_transaction d e b)) = employer_profiles d"
    using assms by (auto simp: register_transaction_def rollback_def Let_def)
  then show ?thesis by blast
next
  case False
  then show ?thesis
    using assms by (auto simp: register_transaction_def Let_def)
qed

lemma register_transaction_users:
  "users (snd (register_transaction d e b)) = users d
   \<or> (\<exists>u. users (snd (register_transaction d e b)) = users d @ [u] \<and> u_role u = rb_role b)"
  by (simp add: register_transaction_def rollback_def Let_def)

text \<open>As written, \<open>register\<close> never reaches the transaction: it writes nothing and never succeeds.\<close>

lemma register_never_writes:
  "snd (register d e b) = d \<and> (\<exists>err. fst (register d e b) = Inl err)"
  by (simp add: register_def query_pool_def)

text \<open>
  C7. A well-formed registration of a job seeker with an unused email passes the role
  check and the email check and then fails with the TypeError of \<open>query.pool.connect()\<close>,
  answered 500: no transaction is begun, and neither a user nor a profile is stored.
\<close>

theorem register_fails_before_transaction:
  "rb_role sample_register_body \<in> set [''job_seeker'', ''employer'']
   \<and> [u \<leftarrow> users sample_db. u_email u = rb_email sample_register_body] = []
   \<and> register sample_db sample_register_env sample_register_body = (Inl TypeError, sample_db)
   \<and> errorHandler_status TypeError = 500"
  by (simp add: register_def query_pool_def sample_register_body_def sample_db_def sample_users_def)

text \<open>
  C9. A registration whose role is neither \<open>job_seeker\<close> nor \<open>employer\<close> is answered
  400 and the database is left as it was; and whatever the request, a user row that is
  in the table after \<open>register\<close> was there before or has one of these two roles, so
  registration creates no admin.
\<close>

theorem register_rejects_other_roles:
  "(rb_role b \<notin> set [''job_seeker'', ''employer''] \<longrightarrow>
      register d e b = (Inl (ApiError 400 ''Invalid role. Must be job_seeker or employer''), d))
   \<and> (\<forall>u \<in> set (users (snd (register d e b))).
        u \<in> set (users d) \<or> u_role u \<in> set [''job_seeker'', ''employer''])"
proof (intro conjI impI)
  assume "rb_role b \<notin> set [''job_seeker'', ''employer'']"
  then show "register d e b = (Inl (ApiError 400 ''Invalid role. Must be job_seeker or employer''), d)"
    unfolding register_def by (simp only: if_True if_False simp_thms)
next
  show "\<forall>u \<in> set (users (snd (register d e b))).
        u \<in> set (users d) \<or> u_role u \<in> set [''job_seeker'', ''employer'']"
  proof (cases "rb_role b \<notin> set [''job_seeker'', ''employer'']
                \<or> [u \<leftarrow> users d. u_email u = rb_email b] \<noteq> [] \<or> query_pool = None")
    case True
    then have "snd (register d e b) = d"
      by (auto simp: register_def split: option.splits)
    then show ?thesis by simp
  next
    case False
    then have r: "rb_role b \<in> set [''job_seeker'', ''employer'']"
      and "snd (register d e b) = snd (register_transaction d e b)"
      by (auto simp: register_def split: option.splits)
    with register_transaction_users [of d e b] show ?thesis by auto
  qed
qed

theorem register_rejects_other_roles_witness:
  "''admin'' \<notin> set [''job_seeker'', ''employer'']
   \<and> register sample_db sample_register_env (sample_register_body\<lparr>rb_role := ''admin''\<rparr>)
       = (Inl (ApiError 400 ''Invalid role. Must be job_seeker or employer''), sample_db)"
  using register_rejects_other_roles [of "sample_register_body\<lparr>rb_role := ''admin''\<rparr>"
          sample_db sample_register_env]
  by (simp add: sample_register_body_def)

end
